theory Spec2Isabelle
  imports Complex_Main "HOL-Library.Log_Nat"
begin

section \<open>Numbers and identifiers\<close>

text \<open>
  The storefront is TypeScript, and a JavaScript \<open>number\<close> is an IEEE 754 double. A
  number is kept as the rational it denotes, and the pricing computation of the cart page
  is modelled with its rounding: each sum, difference, product and quotient of that
  computation is rounded by \<open>double\<close>, to the nearest double, ties going to the even
  significand. Comparisons and \<open>Math.min\<close> are exact in the program as well.

  Overflow to \<open>Infinity\<close> is not modelled: model and program agree as long as every
  result stays below \<open>2 ^ 1024\<close> in magnitude.

  The other numbers are not rounded. A refund amount is only negated and a quantity only
  raised by one, which is exact in doubles; the delivery progress, which the page passes
  through \<open>Math.round\<close> before showing it, is kept as the exact quotient. Quantities and
  stock levels are whole numbers and are kept as \<open>int\<close>. Identifiers are the opaque
  strings the remote store hands out.
\<close>

type_synonym number = rat

text \<open>Rounding to the nearest integer, a tie going to the even neighbour.\<close>

definition rne :: "rat \<Rightarrow> int" where
  "rne q =
     (let f = \<lfloor>q\<rfloor>; d = q - of_int f
      in if d < 1 / 2 then f
         else if 1 / 2 < d then f + 1
         else if even f then f else f + 1)"

text \<open>
  The numbers with \<open>p\<close> significant bits among the non-negative integers are all
  integers below \<open>2 ^ p\<close> and, for an integer of \<open>p + j\<close> bits, the multiples of \<open>2 ^ j\<close>.
  \<open>grid p y\<close> rounds \<open>y \<ge> 0\<close> to the nearest of them: \<open>bitlen\<close> is the number of bits of
  the integer part of \<open>y\<close>.
\<close>

definition grid :: "nat \<Rightarrow> rat \<Rightarrow> rat" where
  "grid p y =
     (let j = nat (bitlen \<lfloor>y\<rfloor> - int p)
      in of_int (rne (y / 2 ^ j)) * 2 ^ j)"

text \<open>
  A binary floating-point format with \<open>p\<close> significant bits whose smallest positive
  number is \<open>2 ^ - emin\<close>: scaled by \<open>2 ^ emin\<close> its numbers are the integers of \<open>p\<close>
  significant bits, the subnormal ones being those below \<open>2 ^ (p - 1)\<close>. A double has 53
  significant bits and the smallest positive double is \<open>2 ^ - 1074\<close>.
\<close>

definition round_binary :: "nat \<Rightarrow> nat \<Rightarrow> rat \<Rightarrow> rat" where
  "round_binary p emin x = sgn x * grid p (\<bar>x\<bar> * 2 ^ emin) / 2 ^ emin"

definition double :: "number \<Rightarrow> number" where
  "double x = round_binary 53 1074 x"

section \<open>The cart page (src/pages/store/Cart.tsx)\<close>

text \<open>
  \<open>Coupon.type\<close> is the union \<open>'percentage' | 'fixed'\<close>; the code tests only
  \<open>type === 'percentage'\<close> and treats everything else as fixed. \<open>min_order_value\<close> and
  \<open>max_discount\<close> are nullable columns. Field names that collide with Isabelle keywords
  or with fields of another record carry a short prefix.
\<close>

datatype CouponType = Percentage | Fixed

record Coupon =
  code :: string
  coupon_type :: CouponType
  coupon_value :: number
  min_order_value :: "number option"
  max_discount :: "number option"
  is_active :: bool

record Product =
  product_id :: string
  product_name :: string
  price :: number
  stock_quantity :: int

text \<open>\<open>CartItemWithProduct\<close>: a cart line joined with its product row.\<close>

record CartItemWithProduct =
  item_id :: string
  quantity :: int
  product :: Product

text \<open>
  The \<open>useState\<close> cells of \<open>CartPage\<close>. The toast sink, the router and the signed-in
  user are collaborators and are not part of the state.
\<close>

record CartPage =
  cartItems :: "CartItemWithProduct list"
  couponCode :: string
  appliedCoupon :: "Coupon option"
  isLoading :: bool
  isApplyingCoupon :: bool

text \<open>
  \<open>cartItems.reduce((sum, item) => sum + (item.product.price * item.quantity), 0)\<close>
\<close>

definition subtotal :: "CartPage \<Rightarrow> number" where
  "subtotal s =
     foldl (\<lambda>sum item. double (sum + double (price (product item) * of_int (quantity item))))
       0 (cartItems s)"

text \<open>
  \<open>Math.min(x, max_discount || Infinity)\<close>. The operator \<open>||\<close> takes its right operand
  when the left one is falsy, and both \<open>null\<close> and the number \<open>0\<close> are falsy; the minimum
  with \<open>Infinity\<close> is \<open>x\<close> itself.
\<close>

definition min_or_Infinity :: "number \<Rightarrow> number option \<Rightarrow> number" where
  "min_or_Infinity x m =
     (case m of
        None \<Rightarrow> x
      | Some c \<Rightarrow> if c = 0 then x else min x c)"

text \<open>
  \<open>appliedCoupon ? (type === 'percentage' ? Math.min(subtotal * value / 100, ...) : value) : 0\<close>
\<close>

definition discount :: "CartPage \<Rightarrow> number" where
  "discount s =
     (case appliedCoupon s of
        None \<Rightarrow> 0
      | Some c \<Rightarrow>
          if coupon_type c = Percentage
          then min_or_Infinity (double (double (subtotal s * coupon_value c) / 100))
                 (max_discount c)
          else coupon_value c)"

text \<open>\<open>subtotal >= 500 ? 0 : 50\<close>\<close>

definition shippingCharge :: "CartPage \<Rightarrow> number" where
  "shippingCharge s = (if subtotal s \<ge> 500 then 0 else 50)"

text \<open>\<open>subtotal - discount + shippingCharge\<close>\<close>

definition total :: "CartPage \<Rightarrow> number" where
  "total s = double (double (subtotal s - discount s) + shippingCharge s)"

text \<open>
  \<open>updateQuantity(itemId, newQuantity)\<close>. The handler returns silently below 1, reports
  \<open>Not enough stock available\<close> when the line is missing or the stock is exceeded, and
  otherwise writes the quantity to the store and to the page state. The result of the
  remote write is not inspected by the code.
\<close>

datatype CartOutcome = Ignored | NotEnoughStock | QuantityStored

definition find_item :: "CartItemWithProduct list \<Rightarrow> string \<Rightarrow> CartItemWithProduct option" where
  "find_item items itemId = find (\<lambda>i. item_id i = itemId) items"

definition updateQuantity :: "string \<Rightarrow> int \<Rightarrow> CartPage \<Rightarrow> CartOutcome \<times> CartPage" where
  "updateQuantity itemId newQuantity s =
     (if newQuantity < 1 then (Ignored, s)
      else case find_item (cartItems s) itemId of
             None \<Rightarrow> (NotEnoughStock, s)
           | Some item \<Rightarrow>
               if newQuantity > stock_quantity (product item) then (NotEnoughStock, s)
               else (QuantityStored,
                     s\<lparr>cartItems :=
                          map (\<lambda>i. if item_id i = itemId then i\<lparr>quantity := newQuantity\<rparr> else i)
                              (cartItems s)\<rparr>))"

section \<open>The home page (src/pages/store/Home.tsx)\<close>

text \<open>
  The tables \<open>cart\<close> and \<open>cart_items\<close> of the remote store, as far as \<open>handleAddToCart\<close>
  reads and writes them.
\<close>

record CartRow =
  cart_id :: string
  cart_user_id :: string

record CartItemRow =
  row_id :: string
  row_cart_id :: string
  row_product_id :: string
  row_quantity :: int

record ShopStore =
  cart :: "CartRow list"
  cart_items :: "CartItemRow list"

text \<open>
  \<open>.single()\<close> answers with the row when the query matches exactly one row and with
  \<open>null\<close> otherwise.
\<close>

fun single :: "'a list \<Rightarrow> 'a option" where
  "single [x] = Some x"
| "single _ = None"

datatype HomeOutcome = PleaseLogin | AddedToCart | NoCart

text \<open>
  \<open>handleAddToCart(product)\<close>. The signed-in user is \<open>user\<close> (\<open>None\<close> when signed out).
  \<open>newCart\<close> is the row the store returns when a cart has to be created (\<open>None\<close> when
  it returns none, in which case the handler does nothing more) and \<open>newRowId\<close> is the
  identifier the store gives to an inserted cart line. The store client reports failures
  as values, which this handler never inspects, so the two writes to \<open>cart_items\<close> are
  taken as performed. A product already in the cart has its quantity raised by one; of
  the product the handler reads \<open>id\<close> and \<open>name\<close> only.
\<close>

definition handleAddToCart ::
  "string option \<Rightarrow> string option \<Rightarrow> string \<Rightarrow> Product \<Rightarrow> ShopStore \<Rightarrow> HomeOutcome \<times> ShopStore" where
  "handleAddToCart user newCart newRowId p st =
     (case user of
        None \<Rightarrow> (PleaseLogin, st)
      | Some uid \<Rightarrow>
          let found = single (filter (\<lambda>c. cart_user_id c = uid) (cart st));
              st1 = (case (found, newCart) of
                       (None, Some cid) \<Rightarrow>
                         st\<lparr>cart := cart st @ [\<lparr>cart_id = cid, cart_user_id = uid\<rparr>]\<rparr>
                     | _ \<Rightarrow> st);
              the_cart = (case found of
                            Some c \<Rightarrow> Some (cart_id c)
                          | None \<Rightarrow> newCart)
          in case the_cart of
               None \<Rightarrow> (NoCart, st1)
             | Some cid \<Rightarrow>
                 (case single (filter (\<lambda>r. row_cart_id r = cid \<and> row_product_id r = product_id p)
                                      (cart_items st1)) of
                    Some existingItem \<Rightarrow>
                      (AddedToCart,
                       st1\<lparr>cart_items :=
                             map (\<lambda>r. if row_id r = row_id existingItem
                                       then r\<lparr>row_quantity := row_quantity existingItem + 1\<rparr>
                                       else r)
                                 (cart_items st1)\<rparr>)
                  | None \<Rightarrow>
                      (AddedToCart,
                       st1\<lparr>cart_items :=
                             cart_items st1 @
                               [\<lparr>row_id = newRowId, row_cart_id = cid,
                                 row_product_id = product_id p, row_quantity = 1\<rparr>]\<rparr>)))"

section \<open>The order administration page\<close>

text \<open>
  \<open>AdminOrders\<close> exists in two revisions: src/pages/admin/Orders.tsx, and the later one
  carried in src/components/storefront/StorefrontLayout.tsx, which adds refunds and the
  payment-status selector for cash-on-delivery orders. \<open>handleStatusUpdate\<close> and
  \<open>handleDeliveryUpdate\<close> are the same in both up to the wording of the toast; the
  wording below is the later revision's.
\<close>

datatype OrderStatus = New | Confirmed | Packed | Shipped | Delivered | Cancelled | Returned

datatype PaymentStatus = Pending | Paid | Failed | Refunded | Partial

text \<open>
  Of an order row the handlers read \<open>id\<close>, \<open>payment_method\<close> and \<open>total\<close> and write
  \<open>status\<close> and \<open>payment_status\<close>; the other columns pass through untouched and are left out.
\<close>

record Order =
  order_id :: string
  order_number :: string
  order_status :: OrderStatus
  payment_status :: PaymentStatus
  payment_method :: "string option"
  order_total :: number

record Payment =
  pay_id :: string
  pay_order_id :: string
  pay_amount :: number
  pay_method :: string
  pay_status :: PaymentStatus
  refund_amount :: "number option"
  refund_reason :: "string option"

text \<open>
  \<open>handleDeliveryUpdate\<close> receives the new status as a plain \<open>string\<close> and stores it as
  it comes, so the delivery status is a string here as well.
\<close>

record Delivery =
  delivery_id :: string
  delivery_order_id :: string
  delivery_status :: string
  partner_name :: "string option"
  tracking_number :: "string option"
  tracking_url :: "string option"
  delivered_at :: "string option"
  is_cod :: bool
  cod_amount :: number
  cod_collected :: bool

text \<open>
  The two selectors of the page offer every entry of these lists, whatever the current
  status is.
\<close>

definition ORDER_STATUSES :: "OrderStatus list" where
  "ORDER_STATUSES = [New, Confirmed, Packed, Shipped, Delivered, Cancelled, Returned]"


text \<open>The tables of the remote store that the page writes.\<close>

record Store =
  orders :: "Order list"
  deliveries :: "Delivery list"
  payments :: "Payment list"

text \<open>
  The \<open>useState\<close> cells of the page that the handlers read or write. \<open>refundAmount\<close> is
  the text of an \<open>input type="number"\<close>: empty, or a number; it is kept as the number it
  denotes, \<open>None\<close> for the empty text. The busy flags are raised and lowered again inside
  each handler, and \<open>fetchOrders\<close>/\<open>fetchOrderDetails\<close> only reload the display lists;
  neither is modelled.
\<close>

record AdminOrders =
  selectedOrder :: "Order option"
  delivery :: "Delivery option"
  refundAmount :: "number option"
  refundReason :: string
  refundDialogOpen :: bool

text \<open>
  What a handler shows to the operator: nothing (an early \<open>return\<close>), a destructive toast
  carrying the store's error message, or a plain toast with a title.
\<close>

datatype Toast = ErrorToast string | InfoToast string

text \<open>
  A write to the remote store is answered with an error message or with none. The answer
  is an input of the model (\<open>string option\<close>, \<open>None\<close> for success); a write that is
  answered with an error changes nothing.

  \<open>update(...).eq('id', id)\<close> rewrites every row carrying that identifier.
\<close>

definition update_rows :: "('r \<Rightarrow> string) \<Rightarrow> string \<Rightarrow> ('r \<Rightarrow> 'r) \<Rightarrow> 'r list \<Rightarrow> 'r list" where
  "update_rows key k f rows = map (\<lambda>r. if key r = k then f r else r) rows"

text \<open>\<open>handleStatusUpdate(newStatus)\<close>\<close>

definition handleStatusUpdate ::
  "string option \<Rightarrow> OrderStatus \<Rightarrow> AdminOrders \<times> Store \<Rightarrow> Toast option \<times> AdminOrders \<times> Store" where
  "handleStatusUpdate reply newStatus w =
     (case w of (ui, st) \<Rightarrow>
        case selectedOrder ui of
          None \<Rightarrow> (None, ui, st)
        | Some so \<Rightarrow>
            (case reply of
               Some message \<Rightarrow> (Some (ErrorToast message), ui, st)
             | None \<Rightarrow>
                 (Some (InfoToast ''Status updated''),
                  ui\<lparr>selectedOrder := Some (so\<lparr>order_status := newStatus\<rparr>)\<rparr>,
                  st\<lparr>orders :=
                       update_rows order_id (order_id so) (\<lambda>r. r\<lparr>order_status := newStatus\<rparr>)
                         (orders st)\<rparr>)))"

text \<open>
  \<open>updateData\<close> is the object \<open>{ [field]: value }\<close>, extended by \<open>delivered_at\<close> when the
  field is \<open>status\<close> and the value is \<open>delivered\<close>; \<open>now\<close> stands for
  \<open>new Date().toISOString()\<close>. It is kept as the list of its assignments.
\<close>

definition updateData :: "string \<Rightarrow> string \<Rightarrow> string \<Rightarrow> (string \<times> string) list" where
  "updateData now field v =
     (field, v) #
     (if field = ''status'' \<and> v = ''delivered'' then [(''delivered_at'', now)] else [])"

text \<open>
  One assignment of \<open>{ ...delivery, ...updateData }\<close>. The callers pass the four
  field names \<open>status\<close>, \<open>partner_name\<close>, \<open>tracking_number\<close> and \<open>tracking_url\<close>; a
  key that is no text column of the record leaves the record as it is.
\<close>

definition assign :: "string \<times> string \<Rightarrow> Delivery \<Rightarrow> Delivery" where
  "assign kv d =
     (case kv of (k, v) \<Rightarrow>
        if k = ''status'' then d\<lparr>delivery_status := v\<rparr>
        else if k = ''partner_name'' then d\<lparr>partner_name := Some v\<rparr>
        else if k = ''tracking_number'' then d\<lparr>tracking_number := Some v\<rparr>
        else if k = ''tracking_url'' then d\<lparr>tracking_url := Some v\<rparr>
        else if k = ''delivered_at'' then d\<lparr>delivered_at := Some v\<rparr>
        else d)"

definition spread :: "Delivery \<Rightarrow> (string \<times> string) list \<Rightarrow> Delivery" where
  "spread d kvs = foldl (\<lambda>acc kv. assign kv acc) d kvs"

text \<open>\<open>handleDeliveryUpdate(field, value)\<close>\<close>

definition handleDeliveryUpdate ::
  "string \<Rightarrow> string option \<Rightarrow> string \<Rightarrow> string \<Rightarrow> AdminOrders \<times> Store
     \<Rightarrow> Toast option \<times> AdminOrders \<times> Store" where
  "handleDeliveryUpdate now reply field v w =
     (case w of (ui, st) \<Rightarrow>
        case delivery ui of
          None \<Rightarrow> (None, ui, st)
        | Some d \<Rightarrow>
            (case reply of
               Some message \<Rightarrow> (Some (ErrorToast message), ui, st)
             | None \<Rightarrow>
                 (Some (InfoToast ''Delivery updated''),
                  ui\<lparr>delivery := Some (spread d (updateData now field v))\<rparr>,
                  st\<lparr>deliveries :=
                       update_rows delivery_id (delivery_id d)
                         (\<lambda>r. spread r (updateData now field v)) (deliveries st)\<rparr>)))"

text \<open>\<open>x || fallback\<close> on a nullable string: \<open>null\<close> and the empty string are falsy.\<close>

definition or_string :: "string option \<Rightarrow> string \<Rightarrow> string" where
  "or_string x fallback =
     (case x of
        None \<Rightarrow> fallback
      | Some t \<Rightarrow> if t = [] then fallback else t)"

text \<open>
  The row that \<open>handleRefund\<close> inserts into \<open>payments\<close>: \<open>amount: -Number(refundAmount)\<close>,
  \<open>method: payment_method || 'online'\<close>, \<open>status: 'refunded'\<close>,
  \<open>refund_amount: Number(refundAmount)\<close>, \<open>refund_reason: refundReason || null\<close>.
  \<open>newId\<close> is the identifier the store gives to the row.
\<close>

definition refund_row :: "string \<Rightarrow> Order \<Rightarrow> number \<Rightarrow> string \<Rightarrow> Payment" where
  "refund_row newId so a reason =
     \<lparr>pay_id = newId, pay_order_id = order_id so, pay_amount = - a,
      pay_method = or_string (payment_method so) ''online'', pay_status = Refunded,
      refund_amount = Some a,
      refund_reason = (if reason = [] then None else Some reason)\<rparr>"

text \<open>
  \<open>handleRefund()\<close>. It returns at once without a selected order or with an empty amount
  field. Only the answer to the insert is inspected; the answer to the following update
  of the order row (\<open>updateReply\<close>) is dropped by the code, and the page state is set to
  \<open>refunded\<close> whatever it was.
\<close>

definition handleRefund ::
  "string option \<Rightarrow> string \<Rightarrow> string option \<Rightarrow> AdminOrders \<times> Store
     \<Rightarrow> Toast option \<times> AdminOrders \<times> Store" where
  "handleRefund insertReply newId updateReply w =
     (case w of (ui, st) \<Rightarrow>
        case selectedOrder ui of
          None \<Rightarrow> (None, ui, st)
        | Some so \<Rightarrow>
            (case refundAmount ui of
               None \<Rightarrow> (None, ui, st)
             | Some a \<Rightarrow>
                 (case insertReply of
                    Some message \<Rightarrow> (Some (ErrorToast message), ui, st)
                  | None \<Rightarrow>
                      (Some (InfoToast ''Refund processed''),
                       ui\<lparr>selectedOrder := Some (so\<lparr>payment_status := Refunded\<rparr>),
                          refundDialogOpen := False,
                          refundAmount := None,
                          refundReason := []\<rparr>,
                       st\<lparr>payments := payments st @ [refund_row newId so a (refundReason ui)],
                          orders :=
                            (case updateReply of
                               Some message \<Rightarrow> orders st
                             | None \<Rightarrow>
                                 update_rows order_id (order_id so)
                                   (\<lambda>r. r\<lparr>payment_status := Refunded\<rparr>) (orders st))\<rparr>))))"

text \<open>
  The \<open>onValueChange\<close> handler of the payment-status selector. The selector is rendered
  only for a selected order whose \<open>payment_method\<close> is \<open>cod\<close>. It writes the order row,
  looks for the single \<open>payments\<close> row of this order with method \<open>cod\<close>, and rewrites the
  status of that row if there is one. None of the answers of the store is inspected;
  \<open>orderReply\<close> and \<open>paymentReply\<close> are the answers to the two writes.
\<close>

definition onPaymentStatusChange ::
  "string option \<Rightarrow> string option \<Rightarrow> PaymentStatus \<Rightarrow> AdminOrders \<times> Store
     \<Rightarrow> Toast option \<times> AdminOrders \<times> Store" where
  "onPaymentStatusChange orderReply paymentReply typedVal w =
     (case w of (ui, st) \<Rightarrow>
        case selectedOrder ui of
          None \<Rightarrow> (None, ui, st)
        | Some so \<Rightarrow>
            if payment_method so = Some ''cod'' then
              let st1 = (case orderReply of
                           Some message \<Rightarrow> st
                         | None \<Rightarrow>
                             st\<lparr>orders :=
                                  update_rows order_id (order_id so)
                                    (\<lambda>r. r\<lparr>payment_status := typedVal\<rparr>) (orders st)\<rparr>);
                  paymentRecord =
                    single (filter (\<lambda>p. pay_order_id p = order_id so \<and> pay_method p = ''cod'')
                                   (payments st1));
                  st2 = (case paymentRecord of
                           None \<Rightarrow> st1
                         | Some pr \<Rightarrow>
                             (case paymentReply of
                                Some message \<Rightarrow> st1
                              | None \<Rightarrow>
                                  st1\<lparr>payments :=
                                        update_rows pay_id (pay_id pr)
                                          (\<lambda>p. p\<lparr>pay_status := typedVal\<rparr>) (payments st1)\<rparr>))
              in (Some (InfoToast ''Payment status updated''),
                  ui\<lparr>selectedOrder := Some (so\<lparr>payment_status := typedVal\<rparr>)\<rparr>,
                  st2)
            else (None, ui, st))"



section \<open>Notions of the specification\<close>

text \<open>
  The specification's order lifecycle, written from its words and used only to name the
  pairs it calls illegal: \<open>new \<rightarrow> confirmed \<rightarrow> packed \<rightarrow> shipped \<rightarrow> delivered\<close>, with
  \<open>cancelled\<close> and \<open>returned\<close> reachable from the four non-terminal states and nothing
  leaving \<open>delivered\<close>, \<open>cancelled\<close> or \<open>returned\<close>.
\<close>

definition spec_order_edges :: "(OrderStatus \<times> OrderStatus) list" where
  "spec_order_edges =
     [(New, Confirmed), (Confirmed, Packed), (Packed, Shipped), (Shipped, Delivered),
      (New, Cancelled), (Confirmed, Cancelled), (Packed, Cancelled), (Shipped, Cancelled),
      (New, Returned), (Confirmed, Returned), (Packed, Returned), (Shipped, Returned)]"

definition spec_order_edge :: "OrderStatus \<Rightarrow> OrderStatus \<Rightarrow> bool" where
  "spec_order_edge s t = ((s, t) \<in> set spec_order_edges)"



text \<open>The running sum of the \<open>refund_amount\<close> entries recorded for one order.\<close>

definition refunded_sum :: "string \<Rightarrow> Payment list \<Rightarrow> number" where
  "refunded_sum oid ps =
     sum_list (map (\<lambda>p. case refund_amount p of None \<Rightarrow> 0 | Some a \<Rightarrow> a)
                   (filter (\<lambda>p. pay_order_id p = oid) ps))"

section \<open>Concrete carts, orders and runs\<close>

definition product_100 :: Product where
  "product_100 = \<lparr>product_id = ''p1'', product_name = ''Mug'', price = 100, stock_quantity = 1\<rparr>"


definition product_1000 :: Product where
  "product_1000 = \<lparr>product_id = ''p3'', product_name = ''Desk'', price = 1000, stock_quantity = 2\<rparr>"



definition coupon_10_percent_cap_0 :: Coupon where
  "coupon_10_percent_cap_0 =
     \<lparr>code = ''ZEROCAP'', coupon_type = Percentage, coupon_value = 10,
      min_order_value = None, max_discount = Some 0, is_active = True\<rparr>"

definition cart_of :: "Product \<Rightarrow> Coupon option \<Rightarrow> CartPage" where
  "cart_of p c =
     \<lparr>cartItems = [\<lparr>item_id = ''i1'', quantity = 1, product = p\<rparr>],
      couponCode = [], appliedCoupon = c, isLoading = False, isApplyingCoupon = False\<rparr>"

definition order_1000 :: Order where
  "order_1000 =
     \<lparr>order_id = ''o1'', order_number = ''ORD-1'', order_status = Delivered,
      payment_status = Pending, payment_method = Some ''cod'', order_total = 1000\<rparr>"

definition delivery_1 :: Delivery where
  "delivery_1 =
     \<lparr>delivery_id = ''d1'', delivery_order_id = ''o1'', delivery_status = ''delivered'',
      partner_name = None, tracking_number = None, tracking_url = None,
      delivered_at = Some ''2024-01-01T10:00:00.000Z'', is_cod = True, cod_amount = 1000,
      cod_collected = False\<rparr>"

definition page_1 :: AdminOrders where
  "page_1 =
     \<lparr>selectedOrder = Some order_1000, delivery = Some delivery_1, refundAmount = None,
      refundReason = [], refundDialogOpen = False\<rparr>"

definition store_1 :: Store where
  "store_1 = \<lparr>orders = [order_1000], deliveries = [delivery_1], payments = []\<rparr>"

text \<open>The operator types an amount into the refund dialog: \<open>setRefundAmount(e.target.value)\<close>.\<close>

definition enter_amount :: "number \<Rightarrow> Toast option \<times> AdminOrders \<times> Store \<Rightarrow> AdminOrders \<times> Store" where
  "enter_amount a r = (case r of (t, ui, st) \<Rightarrow> (ui\<lparr>refundAmount := Some a\<rparr>, st))"

definition refund_300 :: "Toast option \<times> AdminOrders \<times> Store" where
  "refund_300 = handleRefund None ''r1'' None (enter_amount 300 (None, page_1, store_1))"

definition refund_300_800 :: "Toast option \<times> AdminOrders \<times> Store" where
  "refund_300_800 = handleRefund None ''r2'' None (enter_amount 800 refund_300)"

definition refund_minus_5 :: "Toast option \<times> AdminOrders \<times> Store" where
  "refund_minus_5 = handleRefund None ''r1'' None (enter_amount (- 5) (None, page_1, store_1))"

definition cod_payment :: Payment where
  "cod_payment =
     \<lparr>pay_id = ''pay1'', pay_order_id = ''o1'', pay_amount = 1000, pay_method = ''cod'',
      pay_status = Pending, refund_amount = None, refund_reason = None\<rparr>"

definition store_cod :: Store where
  "store_cod = \<lparr>orders = [order_1000], deliveries = [delivery_1], payments = [cod_payment]\<rparr>"

definition picked_again :: "Toast option \<times> AdminOrders \<times> Store" where
  "picked_again =
     handleDeliveryUpdate ''2024-01-02T09:00:00.000Z'' None ''status'' ''picked'' (page_1, store_1)"

definition delivered_again :: "Toast option \<times> AdminOrders \<times> Store" where
  "delivered_again =
     handleDeliveryUpdate ''2024-01-03T09:00:00.000Z'' None ''status'' ''delivered''
       (snd picked_again)"

definition shop_1 :: ShopStore where
  "shop_1 =
     \<lparr>cart = [\<lparr>cart_id = ''c1'', cart_user_id = ''u1''\<rparr>],
      cart_items = [\<lparr>row_id = ''row1'', row_cart_id = ''c1'', row_product_id = ''p1'',
                     row_quantity = 1\<rparr>]\<rparr>"

section \<open>Properties of the rounding\<close>

lemma rne_of_int: "rne (of_int n) = n"
  by (simp add: rne_def)









text \<open>An integer of at most \<open>p\<close> bits, scaled by a power of two, is on the grid.\<close>

lemma grid_exact:
  assumes "0 < m" and "m < 2 ^ p"
  shows "grid p (of_int (m * 2 ^ e)) = of_int (m * 2 ^ e)"
proof -
  define L where "L = bitlen m"
  have L: "0 \<le> L" "L \<le> int p"
    using assms(2) by (simp_all add: L_def bitlen_nonneg bitlen_le_iff_power)
  define j where "j = nat (bitlen (m * 2 ^ e) - int p)"
  have j: "j = nat (L + int e - int p)" using assms(1) by (simp add: j_def L_def)
  then have "j \<le> e" using L by simp
  then obtain k where k: "e = j + k" using le_Suc_ex by blast
  have div: "(of_int (m * 2 ^ e) :: rat) / 2 ^ j = of_int (m * 2 ^ k)"
    by (simp add: k power_add)
  have "grid p (of_int (m * 2 ^ e)) = of_int (rne (of_int (m * 2 ^ k))) * 2 ^ j"
    unfolding grid_def Let_def floor_of_int j_def [symmetric] div ..
  also have "\<dots> = of_int (m * 2 ^ e)"
    unfolding rne_of_int by (simp add: k power_add)
  finally show ?thesis .
qed




lemma round_binary_exact:
  assumes "\<bar>n\<bar> < 2 ^ p"
  shows "round_binary p emin (of_int n) = of_int n"
proof (cases "n = 0")
  case True
  then show ?thesis by (simp add: round_binary_def)
next
  case False
  with assms have m: "0 < \<bar>n\<bar>" "\<bar>n\<bar> < 2 ^ p" by simp_all
  have y: "\<bar>rat_of_int n\<bar> * 2 ^ emin = of_int (\<bar>n\<bar> * 2 ^ emin)" by simp
  have "round_binary p emin (of_int n)
        = sgn (rat_of_int n) * of_int (\<bar>n\<bar> * 2 ^ emin) / 2 ^ emin"
    unfolding round_binary_def y grid_exact [OF m] ..
  also have "\<dots> = sgn (rat_of_int n) * \<bar>rat_of_int n\<bar>" by simp
  also have "\<dots> = of_int n" by (simp add: sgn_mult_abs)
  finally show ?thesis .
qed





lemma double_exact:
  assumes "x \<in> \<int>" and "\<bar>x\<bar> < 2 ^ 53"
  shows "double x = x"
proof -
  from assms(1) obtain n where n: "x = of_int n" by (auto elim: Ints_cases)
  with assms(2) have "\<bar>n\<bar> < 2 ^ 53" by (simp flip: of_int_abs)
  then show ?thesis unfolding n double_def by (rule round_binary_exact)
qed

section \<open>Properties of the cart page\<close>




lemmas pricing_defs = subtotal_def discount_def shippingCharge_def total_def min_or_Infinity_def
  double_exact






text \<open>
  C4 says that a percentage coupon whose \<open>max_discount\<close> is set, 0 included, never
  discounts more than \<open>max_discount\<close>. The page reads the cap through
  \<open>max_discount || Infinity\<close>, which drops a cap of 0: on a subtotal of 1000 a 10 percent
  coupon capped at 0 discounts 100.
\<close>

theorem discount_ignores_zero_cap:
  "max_discount coupon_10_percent_cap_0 = Some 0
   \<and> subtotal (cart_of product_1000 (Some coupon_10_percent_cap_0)) = 1000
   \<and> discount (cart_of product_1000 (Some coupon_10_percent_cap_0)) = 100"
  by (simp add: pricing_defs cart_of_def product_1000_def coupon_10_percent_cap_0_def)

text \<open>Every cap other than 0 is applied as C4 says.\<close>

lemma discount_capped_nonzero:
  assumes "appliedCoupon s = Some c" "coupon_type c = Percentage"
    and "max_discount c = Some m" "m \<noteq> 0"
  shows "discount s = min (double (double (subtotal s * coupon_value c) / 100)) m"
  using assms by (simp add: discount_def min_or_Infinity_def)

section \<open>Properties of the order administration page\<close>

lemmas delivery_defs = handleDeliveryUpdate_def updateData_def spread_def assign_def
  update_rows_def

lemmas refund_defs = handleRefund_def refund_row_def refunded_sum_def or_string_def
  update_rows_def

text \<open>
  C1 as stated fails. \<open>delivered \<rightarrow> new\<close> is no edge of the lifecycle, yet the update of
  a delivered order to \<open>new\<close> is reported as done and the stored status becomes \<open>new\<close>.
\<close>

theorem status_delivered_to_new_counterexample:
  "\<not> spec_order_edge Delivered New
   \<and> map order_status (orders store_1) = [Delivered]
   \<and> fst (handleStatusUpdate None New (page_1, store_1)) = Some (InfoToast ''Status updated'')
   \<and> map order_status (orders (snd (snd (handleStatusUpdate None New (page_1, store_1))))) = [New]"
  by (simp add: spec_order_edge_def spec_order_edges_def handleStatusUpdate_def update_rows_def
        page_1_def store_1_def order_1000_def)

text \<open>
  C1, amended. \<open>handleStatusUpdate\<close> does not look at the current status. With an order
  selected, every target status is written when the store accepts the write: the
  selected order and every stored row with its identifier carry the target afterwards,
  and the other rows keep their status. The update fails only when the store answers
  with an error, and then page and store are unchanged.
\<close>

theorem handleStatusUpdate_any_target:
  assumes "selectedOrder ui = Some so"
    and "handleStatusUpdate reply target (ui, st) = (t, ui', st')"
  shows "(reply = None \<longrightarrow>
            t = Some (InfoToast ''Status updated'')
            \<and> selectedOrder ui' = Some (so\<lparr>order_status := target\<rparr>)
            \<and> map order_status (orders st')
                = map (\<lambda>r. if order_id r = order_id so then target else order_status r) (orders st))
         \<and> (\<forall>message. reply = Some message \<longrightarrow>
               t = Some (ErrorToast message) \<and> ui' = ui \<and> st' = st)"
  using assms by (auto simp: handleStatusUpdate_def update_rows_def split: option.splits)

text \<open>
  The theorem at a delivered order sent back to \<open>new\<close>, once accepted and once refused
  by the store.
\<close>

theorem handleStatusUpdate_any_target_witness:
  "selectedOrder page_1 = Some order_1000
   \<and> order_status order_1000 = Delivered
   \<and> map order_status (orders (snd (snd (handleStatusUpdate None New (page_1, store_1))))) = [New]
   \<and> snd (handleStatusUpdate (Some ''timeout'') New (page_1, store_1)) = (page_1, store_1)"
proof -
  have sel: "selectedOrder page_1 = Some order_1000" by (simp add: page_1_def)
  obtain t ui' st' where ok: "handleStatusUpdate None New (page_1, store_1) = (t, ui', st')"
    by (cases "handleStatusUpdate None New (page_1, store_1)")
  obtain t2 ui2 st2 where
    bad: "handleStatusUpdate (Some ''timeout'') New (page_1, store_1) = (t2, ui2, st2)"
    by (cases "handleStatusUpdate (Some ''timeout'') New (page_1, store_1)")
  from handleStatusUpdate_any_target [OF sel ok] handleStatusUpdate_any_target [OF sel bad]
  show ?thesis using sel ok bad by (simp add: order_1000_def store_1_def)
qed

text \<open>
  C2 as stated fails. On an order of 1000 a refund of 300 followed by a refund of 800 is
  processed and the recorded refunds add up to 1100; a refund of \<open>-5\<close> is processed too.
\<close>

theorem refund_exceeds_total_counterexample:
  "order_total order_1000 = 1000
   \<and> fst refund_300_800 = Some (InfoToast ''Refund processed'')
   \<and> refunded_sum ''o1'' (payments (snd (snd refund_300_800))) = 1100
   \<and> fst refund_minus_5 = Some (InfoToast ''Refund processed'')
   \<and> map refund_amount (payments (snd (snd refund_minus_5))) = [Some (- 5)]"
  by (simp add: refund_defs refund_300_800_def refund_300_def refund_minus_5_def enter_amount_def
        page_1_def store_1_def order_1000_def)

lemma refunded_sum_append:
  "refunded_sum oid (ps @ [refund_row newId so a reason])
   = refunded_sum oid ps + (if order_id so = oid then a else 0)"
  by (simp add: refunded_sum_def refund_row_def)

text \<open>
  C2, amended. \<open>handleRefund\<close> compares the amount with nothing: not with zero, not
  with the order's total, not with what has been refunded before. A call changes neither
  page nor ledger when no order is selected, when the amount field is empty or when the
  store refuses the insert. Every other call, whatever the amount, is processed and
  appends exactly one entry carrying the entered amount, so the running sum of
  \<open>refund_amount\<close> grows by that amount and is not bounded by the order's total.
\<close>

theorem handleRefund_unvalidated:
  assumes "handleRefund insertReply newId updateReply (ui, st) = (t, ui', st')"
  shows "(selectedOrder ui = None \<or> refundAmount ui = None \<or> insertReply \<noteq> None
            \<longrightarrow> ui' = ui \<and> st' = st)
         \<and> (\<forall>so a. selectedOrder ui = Some so \<and> refundAmount ui = Some a \<and> insertReply = None
              \<longrightarrow> t = Some (InfoToast ''Refund processed'')
                  \<and> payments st' = payments st @ [refund_row newId so a (refundReason ui)]
                  \<and> refunded_sum (order_id so) (payments st')
                      = refunded_sum (order_id so) (payments st) + a)"
  using assms
  by (auto simp: handleRefund_def refunded_sum_append split: option.splits)

text \<open>
  The theorem at the second refund of the run above (800 after 300), at a refund of 2000
  on the order of 1000, and at a refund the store refuses.
\<close>

theorem handleRefund_unvalidated_witness:
  "selectedOrder (fst (enter_amount 800 refund_300)) = Some (order_1000\<lparr>payment_status := Refunded\<rparr>)
   \<and> refundAmount (fst (enter_amount 800 refund_300)) = Some 800
   \<and> refunded_sum ''o1'' (payments (snd (snd refund_300))) = 300
   \<and> refunded_sum ''o1'' (payments (snd (snd refund_300_800))) = 300 + 800
   \<and> refunded_sum ''o1''
        (payments (snd (snd (handleRefund None ''r1'' None (page_1\<lparr>refundAmount := Some 2000\<rparr>, store_1)))))
       = 2000
   \<and> snd (handleRefund (Some ''denied'') ''r1'' None (enter_amount 300 (None, page_1, store_1)))
       = enter_amount 300 (None, page_1, store_1)"
proof -
  have accepted:
    "handleRefund None ''r2'' None
       (fst (enter_amount 800 refund_300), snd (enter_amount 800 refund_300))
     = (fst refund_300_800, fst (snd refund_300_800), snd (snd refund_300_800))"
    by (simp add: refund_300_800_def)
  have rejected_call:
    "handleRefund (Some ''denied'') ''r1'' None (page_1\<lparr>refundAmount := Some 300\<rparr>, store_1)
     = (fst (handleRefund (Some ''denied'') ''r1'' None (page_1\<lparr>refundAmount := Some 300\<rparr>, store_1)),
        fst (snd (handleRefund (Some ''denied'') ''r1'' None (page_1\<lparr>refundAmount := Some 300\<rparr>, store_1))),
        snd (snd (handleRefund (Some ''denied'') ''r1'' None (page_1\<lparr>refundAmount := Some 300\<rparr>, store_1))))"
    by simp
  have above_total:
    "handleRefund None ''r1'' None (page_1\<lparr>refundAmount := Some 2000\<rparr>, store_1)
     = (fst (handleRefund None ''r1'' None (page_1\<lparr>refundAmount := Some 2000\<rparr>, store_1)),
        fst (snd (handleRefund None ''r1'' None (page_1\<lparr>refundAmount := Some 2000\<rparr>, store_1))),
        snd (snd (handleRefund None ''r1'' None (page_1\<lparr>refundAmount := Some 2000\<rparr>, store_1))))"
    by simp
  from handleRefund_unvalidated [OF accepted] handleRefund_unvalidated [OF rejected_call]
       handleRefund_unvalidated [OF above_total]
  show ?thesis
    by (simp add: refund_defs refund_300_800_def refund_300_def enter_amount_def
          page_1_def store_1_def order_1000_def)
qed

text \<open>
  C5 as stated fails. For a cash-on-delivery order without a payment entry, marking the
  payment as paid writes the order row and leaves the ledger empty: nothing is appended.
\<close>

theorem cod_paid_without_entry_counterexample:
  "payment_method order_1000 = Some ''cod''
   \<and> payments store_1 = []
   \<and> fst (onPaymentStatusChange None None Paid (page_1, store_1))
       = Some (InfoToast ''Payment status updated'')
   \<and> map payment_status (orders (snd (snd (onPaymentStatusChange None None Paid (page_1, store_1)))))
       = [Paid]
   \<and> payments (snd (snd (onPaymentStatusChange None None Paid (page_1, store_1)))) = []"
  by (simp add: onPaymentStatusChange_def update_rows_def page_1_def store_1_def order_1000_def)

lemma map_update_rows:
  "map g (update_rows key k f rows) = map (\<lambda>r. if key r = k then g (f r) else g r) rows"
  by (simp add: update_rows_def)

lemma length_update_rows: "length (update_rows key k f rows) = length rows"
  by (simp add: update_rows_def)

text \<open>
  C5, amended. For a cash-on-delivery order, and with the store accepting both writes,
  the payment-status selector writes the chosen status to the order and, when the ledger
  holds exactly one \<open>cod\<close> entry of the order, to that entry in the same step. It never
  appends an entry: when the query for the single \<open>cod\<close> entry finds none, the ledger is
  left as it is.
\<close>

theorem onPaymentStatusChange_updates_existing_entry:
  assumes "selectedOrder ui = Some so"
    and "payment_method so = Some ''cod''"
    and "onPaymentStatusChange None None v (ui, st) = (t, ui', st')"
  shows "selectedOrder ui' = Some (so\<lparr>payment_status := v\<rparr>)
         \<and> map payment_status (orders st')
             = map (\<lambda>r. if order_id r = order_id so then v else payment_status r) (orders st)
         \<and> length (payments st') = length (payments st)
         \<and> (\<forall>pr. filter (\<lambda>p. pay_order_id p = order_id so \<and> pay_method p = ''cod'') (payments st) = [pr]
              \<longrightarrow> map pay_status (payments st')
                    = map (\<lambda>p. if pay_id p = pay_id pr then v else pay_status p) (payments st))
         \<and> (single (filter (\<lambda>p. pay_order_id p = order_id so \<and> pay_method p = ''cod'') (payments st))
              = None
              \<longrightarrow> payments st' = payments st)"
  using assms
  by (auto simp: onPaymentStatusChange_def Let_def map_update_rows length_update_rows
           split: option.splits)

text \<open>The theorem at a ledger with one \<open>cod\<close> entry and at an empty ledger.\<close>

theorem onPaymentStatusChange_updates_existing_entry_witness:
  "map payment_status (orders (snd (snd (onPaymentStatusChange None None Paid (page_1, store_cod)))))
     = [Paid]
   \<and> map pay_status (payments (snd (snd (onPaymentStatusChange None None Paid (page_1, store_cod)))))
       = [Paid]
   \<and> payments (snd (snd (onPaymentStatusChange None None Paid (page_1, store_1)))) = payments store_1"
proof -
  have sel: "selectedOrder page_1 = Some order_1000" by (simp add: page_1_def)
  have cod: "payment_method order_1000 = Some ''cod''" by (simp add: order_1000_def)
  have with_entry:
    "onPaymentStatusChange None None Paid (page_1, store_cod)
     = (fst (onPaymentStatusChange None None Paid (page_1, store_cod)),
        fst (snd (onPaymentStatusChange None None Paid (page_1, store_cod))),
        snd (snd (onPaymentStatusChange None None Paid (page_1, store_cod))))"
    by simp
  have without_entry:
    "onPaymentStatusChange None None Paid (page_1, store_1)
     = (fst (onPaymentStatusChange None None Paid (page_1, store_1)),
        fst (snd (onPaymentStatusChange None None Paid (page_1, store_1))),
        snd (snd (onPaymentStatusChange None None Paid (page_1, store_1))))"
    by simp
  have one: "filter (\<lambda>p. pay_order_id p = order_id order_1000 \<and> pay_method p = ''cod'')
               (payments store_cod) = [cod_payment]"
    by (simp add: store_cod_def cod_payment_def order_1000_def)
  have none: "single (filter (\<lambda>p. pay_order_id p = order_id order_1000 \<and> pay_method p = ''cod'')
               (payments store_1)) = None"
    by (simp add: store_1_def)
  from onPaymentStatusChange_updates_existing_entry [OF sel cod with_entry] one
       onPaymentStatusChange_updates_existing_entry [OF sel cod without_entry] none
  show ?thesis
    by (simp add: store_cod_def cod_payment_def order_1000_def)
qed

text \<open>
  C6 as stated fails. A delivered delivery is moved to \<open>picked\<close> without complaint, and
  moving it to \<open>delivered\<close> again overwrites \<open>delivered_at\<close>.
\<close>

theorem delivered_left_and_rewritten_counterexample:
  "map_option delivery_status (delivery page_1) = Some ''delivered''
   \<and> fst picked_again = Some (InfoToast ''Delivery updated'')
   \<and> map delivery_status (deliveries (snd (snd picked_again))) = [''picked'']
   \<and> map delivered_at (deliveries store_1) = [Some ''2024-01-01T10:00:00.000Z'']
   \<and> map delivered_at (deliveries (snd (snd delivered_again))) = [Some ''2024-01-03T09:00:00.000Z'']"
  by (simp add: picked_again_def delivered_again_def delivery_defs
        page_1_def store_1_def delivery_1_def)

text \<open>
  C6, amended. A status update that the store accepts stores the target status whatever
  the current one is, \<open>delivered\<close> included, and sets \<open>delivered_at\<close> to the time of the
  update exactly when the target is \<open>delivered\<close>; for every other target \<open>delivered_at\<close>
  keeps its value. Since \<open>delivered\<close> can be left and entered again, \<open>delivered_at\<close> is
  written once per transition into \<open>delivered\<close>, not once per delivery.
\<close>

theorem handleDeliveryUpdate_status:
  assumes "delivery ui = Some d"
    and "handleDeliveryUpdate now None ''status'' v (ui, st) = (t, ui', st')"
  shows "t = Some (InfoToast ''Delivery updated'')
         \<and> delivery ui'
             = Some (d\<lparr>delivery_status := v,
                       delivered_at := (if v = ''delivered'' then Some now else delivered_at d)\<rparr>)
         \<and> deliveries st'
             = map (\<lambda>r. if delivery_id r = delivery_id d
                         then r\<lparr>delivery_status := v,
                                delivered_at :=
                                  (if v = ''delivered'' then Some now else delivered_at r)\<rparr>
                         else r)
                   (deliveries st)"
  using assms by (auto simp: delivery_defs)

text \<open>The theorem at the delivered delivery moved to \<open>picked\<close>.\<close>

theorem handleDeliveryUpdate_status_witness:
  "delivery page_1 = Some delivery_1
   \<and> map_option delivered_at (delivery (fst (snd picked_again)))
       = Some (Some ''2024-01-01T10:00:00.000Z'')
   \<and> map_option delivery_status (delivery (fst (snd picked_again))) = Some ''picked''"
proof -
  have d: "delivery page_1 = Some delivery_1" by (simp add: page_1_def)
  have call:
    "handleDeliveryUpdate ''2024-01-02T09:00:00.000Z'' None ''status'' ''picked'' (page_1, store_1)
     = (fst picked_again, fst (snd picked_again), snd (snd picked_again))"
    by (simp add: picked_again_def)
  from handleDeliveryUpdate_status [OF d call] d show ?thesis
    by (simp add: delivery_1_def)
qed




text \<open>
  C8 says that adding a product that is already in the cart is refused when the new
  quantity would exceed the stock. \<open>handleAddToCart\<close> never reads \<open>stock_quantity\<close>:
  with one unit in stock and one unit in the cart, adding the product again is reported
  as done and stores quantity 2.
\<close>

theorem handleAddToCart_exceeds_stock:
  "stock_quantity product_100 = 1
   \<and> map row_quantity (cart_items shop_1) = [1]
   \<and> fst (handleAddToCart (Some ''u1'') None ''row2'' product_100 shop_1) = AddedToCart
   \<and> map row_quantity (cart_items (snd (handleAddToCart (Some ''u1'') None ''row2'' product_100 shop_1)))
       = [2]"
  by (simp add: handleAddToCart_def shop_1_def product_100_def)

text \<open>
  The result of \<open>handleAddToCart\<close> is the same for every stock level. The other operation
  named by C8, \<open>updateQuantity\<close> of the cart page, does refuse a quantity above the stock
  and leaves the page state as it is.
\<close>

lemma handleAddToCart_ignores_stock:
  "handleAddToCart user newCart newRowId (p\<lparr>stock_quantity := q\<rparr>) st
   = handleAddToCart user newCart newRowId p st"
proof -
  have same_id: "product_id (p\<lparr>stock_quantity := q\<rparr>) = product_id p" by simp
  show ?thesis unfolding handleAddToCart_def same_id ..
qed

lemma updateQuantity_rejects_over_stock:
  assumes "find_item (cartItems s) itemId = Some item"
    and "stock_quantity (product item) < newQuantity"
  shows "fst (updateQuantity itemId newQuantity s) \<noteq> QuantityStored
         \<and> snd (updateQuantity itemId newQuantity s) = s"
  using assms by (simp add: updateQuantity_def)

text \<open>
  C10. A refund that the store accepts appends one ledger entry with status \<open>refunded\<close>,
  with \<open>refund_amount\<close> the entered amount and \<open>amount\<close> its negation, and sets the
  selected order's \<open>payment_status\<close> to \<open>refunded\<close>; nothing compares the amount with
  the order's total, so a partial refund does the same as a full one. The order row in
  the store is rewritten as well when the store accepts that second write, whose answer
  the code drops.
\<close>

theorem handleRefund_entry:
  assumes "selectedOrder ui = Some so"
    and "refundAmount ui = Some a"
    and "handleRefund None newId updateReply (ui, st) = (t, ui', st')"
  shows "t = Some (InfoToast ''Refund processed'')
         \<and> payments st' = payments st @ [last (payments st')]
         \<and> pay_status (last (payments st')) = Refunded
         \<and> refund_amount (last (payments st')) = Some a
         \<and> pay_amount (last (payments st')) = - a
         \<and> selectedOrder ui' = Some (so\<lparr>payment_status := Refunded\<rparr>)
         \<and> (updateReply = None \<longrightarrow>
              map payment_status (orders st')
                = map (\<lambda>r. if order_id r = order_id so then Refunded else payment_status r)
                      (orders st))"
  using assms
  by (auto simp: handleRefund_def refund_row_def map_update_rows split: option.splits)

text \<open>The theorem at the partial refund of 300 on the order of 1000.\<close>

theorem handleRefund_entry_witness:
  "order_total order_1000 = 1000
   \<and> length (payments (snd (snd refund_300))) = Suc (length (payments store_1))
   \<and> pay_amount (last (payments (snd (snd refund_300)))) = - 300
   \<and> refund_amount (last (payments (snd (snd refund_300)))) = Some 300
   \<and> pay_status (last (payments (snd (snd refund_300)))) = Refunded
   \<and> map payment_status (orders (snd (snd refund_300))) = [Refunded]"
proof -
  have sel: "selectedOrder (page_1\<lparr>refundAmount := Some 300\<rparr>) = Some order_1000"
    by (simp add: page_1_def)
  have amt: "refundAmount (page_1\<lparr>refundAmount := Some 300\<rparr>) = Some 300"
    by simp
  have call:
    "handleRefund None ''r1'' None (page_1\<lparr>refundAmount := Some 300\<rparr>, store_1)
     = (fst refund_300, fst (snd refund_300), snd (snd refund_300))"
    by (simp add: refund_300_def enter_amount_def)
  from handleRefund_entry [OF sel amt call]
  have entry: "payments (snd (snd refund_300)) = payments store_1 @ [last (payments (snd (snd refund_300)))]"
    and rest: "pay_status (last (payments (snd (snd refund_300)))) = Refunded"
      "refund_amount (last (payments (snd (snd refund_300)))) = Some 300"
      "pay_amount (last (payments (snd (snd refund_300)))) = - 300"
      "map payment_status (orders (snd (snd refund_300))) = [Refunded]"
    by (simp_all add: store_1_def order_1000_def)
  from arg_cong [OF entry, of length]
  have "length (payments (snd (snd refund_300))) = Suc (length (payments store_1))" by simp
  with rest show ?thesis by (simp add: order_1000_def)
qed

end
